theory Spec2Isabelle
  imports Complex_Main
begin

section \<open>The transform pipeline of \<^verbatim>\<open>main.py\<close>\<close>

text \<open>
  An operation of the pipeline is a Python callable \<^verbatim>\<open>Callable[[Segment], None]\<close>: it is
  handed one segment, mutates whatever it can reach, and either returns or raises. Here it
  is a function from the segment it is handed and the program state \<open>'w\<close> (the heap the
  segments live in, the random generator, any collaborator) to an outcome and the state it
  leaves behind; \<open>Inl e\<close> is the exception \<open>e\<close> raised, \<open>Inr ()\<close> a normal return. The
  state is returned in both cases: what an operation wrote before it raised stays written.
  The list of segments is not changed by an operation while the loop walks it.
\<close>

type_synonym ('s, 'w, 'e) operation = "'s \<Rightarrow> 'w \<Rightarrow> ('e + unit) \<times> 'w"

text \<open>The inner loop, \<^verbatim>\<open>for function in functions: function(segment)\<close>.\<close>

fun run_functions :: "('s, 'w, 'e) operation list \<Rightarrow> 's \<Rightarrow> 'w \<Rightarrow> ('e + unit) \<times> 'w" where
  "run_functions [] segment w = (Inr (), w)"
| "run_functions (f # functions) segment w =
     (case f segment w of
        (Inl e, w') \<Rightarrow> (Inl e, w')
      | (Inr u, w') \<Rightarrow> run_functions functions segment w')"

text \<open>The outer loop, \<^verbatim>\<open>for segment in segments: ...\<close>.\<close>

fun run_segments :: "('s, 'w, 'e) operation list \<Rightarrow> 's list \<Rightarrow> 'w \<Rightarrow> ('e + unit) \<times> 'w" where
  "run_segments functions [] w = (Inr (), w)"
| "run_segments functions (segment # segments) w =
     (case run_functions functions segment w of
        (Inl e, w') \<Rightarrow> (Inl e, w')
      | (Inr u, w') \<Rightarrow> run_segments functions segments w')"

text \<open>
  \<^verbatim>\<open>pipeline(segments)\<close> runs the two loops and returns the list it was given;
  \<^verbatim>\<open>pipe(*functions)\<close> returns that closure.
\<close>

definition pipeline :: "('s, 'w, 'e) operation list \<Rightarrow> 's list \<Rightarrow> 'w \<Rightarrow> ('e + 's list) \<times> 'w" where
  "pipeline functions segments w =
     (case run_segments functions segments w of
        (Inl e, w') \<Rightarrow> (Inl e, w')
      | (Inr u, w') \<Rightarrow> (Inr segments, w'))"

definition pipe :: "('s, 'w, 'e) operation list \<Rightarrow> 's list \<Rightarrow> 'w \<Rightarrow> ('e + 's list) \<times> 'w" where
  "pipe functions = pipeline functions"

subsection \<open>The order the specification asks for\<close>

text \<open>
  The specification's words, as a schedule of calls: for each segment in sequence order,
  every operation in declared order. \<open>run_calls\<close> makes the calls of a schedule one after
  the other and stops at the first that raises.
\<close>

definition segment_major :: "('s, 'w, 'e) operation list \<Rightarrow> 's list \<Rightarrow> (('s, 'w, 'e) operation \<times> 's) list" where
  "segment_major functions segments =
     concat (map (\<lambda>segment. map (\<lambda>f. (f, segment)) functions) segments)"

fun run_calls :: "(('s, 'w, 'e) operation \<times> 's) list \<Rightarrow> 'w \<Rightarrow> ('e + unit) \<times> 'w" where
  "run_calls [] w = (Inr (), w)"
| "run_calls ((f, segment) # calls) w =
     (case f segment w of
        (Inl e, w') \<Rightarrow> (Inl e, w')
      | (Inr u, w') \<Rightarrow> run_calls calls w')"

section \<open>Rasters, bounding boxes and segments\<close>

subsection \<open>A three-dimensional numpy array and its basic slices\<close>

text \<open>
  A keyframe is a numpy array with three axes. The model keeps its \<^verbatim>\<open>shape\<close> and the
  element at each index triple; only the elements below the shape belong to the array.
  A basic slice is a view: it changes the shape and the offset, never the elements.
\<close>

record 'a ndarray =
  shape0 :: nat
  shape1 :: nat
  shape2 :: nat
  elem :: "nat \<Rightarrow> nat \<Rightarrow> nat \<Rightarrow> 'a"

text \<open>
  How Python places one bound \<open>k\<close> of a slice on an axis of length \<open>n\<close> (step 1): a negative
  bound counts from the end, and the result is clamped to \<open>0..n\<close>.
\<close>

definition slice_bound :: "nat \<Rightarrow> int \<Rightarrow> nat" where
  "slice_bound n k = (if k < 0 then nat (max 0 (int n + k)) else min (nat k) n)"

text \<open>\<^verbatim>\<open>a[:k, :, :]\<close>, \<^verbatim>\<open>a[k:, :, :]\<close>, \<^verbatim>\<open>a[:, :k, :]\<close> and \<^verbatim>\<open>a[:, k:, :]\<close>.\<close>

definition slice_to0 :: "'a ndarray \<Rightarrow> int \<Rightarrow> 'a ndarray" where
  "slice_to0 a k = a\<lparr>shape0 := slice_bound (shape0 a) k\<rparr>"

definition slice_from0 :: "'a ndarray \<Rightarrow> int \<Rightarrow> 'a ndarray" where
  "slice_from0 a k =
     a\<lparr>shape0 := shape0 a - slice_bound (shape0 a) k,
       elem := \<lambda>i. elem a (slice_bound (shape0 a) k + i)\<rparr>"

definition slice_to1 :: "'a ndarray \<Rightarrow> int \<Rightarrow> 'a ndarray" where
  "slice_to1 a k = a\<lparr>shape1 := slice_bound (shape1 a) k\<rparr>"

definition slice_from1 :: "'a ndarray \<Rightarrow> int \<Rightarrow> 'a ndarray" where
  "slice_from1 a k =
     a\<lparr>shape1 := shape1 a - slice_bound (shape1 a) k,
       elem := \<lambda>i j. elem a i (slice_bound (shape1 a) k + j)\<rparr>"

text \<open>
  Python's \<^verbatim>\<open>int(q)\<close> on a finite number: truncation toward zero. (On a float that is
  not finite \<^verbatim>\<open>int\<close> raises; the numbers of this model are the finite ones.)
\<close>

definition py_int :: "rat \<Rightarrow> int" where
  "py_int q = (if 0 \<le> q then \<lfloor>q\<rfloor> else \<lceil>q\<rceil>)"

subsection \<open>The records of module \<^verbatim>\<open>structures\<close>\<close>

text \<open>
  Modelled from the spec: the bounding-box class of module \<^verbatim>\<open>structures\<close> is not among
  the sources. The specification gives it \<^verbatim>\<open>x\<close>, \<^verbatim>\<open>y\<close>, \<^verbatim>\<open>width\<close>, \<^verbatim>\<open>height\<close> and a derived
  \<^verbatim>\<open>center\<close>. How the centre is derived is not visible, so it is a field of its own and
  nothing below depends on its value. The coordinates are numbers that \<^verbatim>\<open>main.py\<close> passes
  through \<^verbatim>\<open>int(...)\<close>; they are rationals here, which covers integer pixel coordinates
  and every finite fractional one, with sums taken exactly.
\<close>

record bbox =
  bbox_x :: rat
  bbox_y :: rat
  width :: rat
  height :: rat
  center :: "rat \<times> rat"

text \<open>
  Modelled from the spec: \<^verbatim>\<open>ImageData\<close> and \<^verbatim>\<open>Segment\<close> of module \<^verbatim>\<open>structures\<close> are not among
  the sources. A segment carries the fields of the specification's data model. A field
  that a stage writes is absent (\<open>None\<close>) until that stage has run; reading through an
  absent field raises \<^verbatim>\<open>AttributeError\<close> in Python. \<^verbatim>\<open>frames\<close> is the sequence of rasters
  whose length is \<^verbatim>\<open>frames.shape[0]\<close>.
\<close>

record 'a image_data =
  image_data_matrix :: "'a ndarray"
  image_subject :: bbox

record 'a segment =
  start :: rat
  end' :: rat
  frames :: "'a ndarray list option"
  keyframe_index :: "int option"
  keyframe :: "'a ndarray option"
  speaker_location :: "(rat \<times> rat) option"
  speakers_bbox :: "bbox option"
  image :: "'a image_data option"

text \<open>
  The exceptions. \<open>AttributeError\<close> and \<open>ValueError\<close> are what Python raises in
  \<^verbatim>\<open>main.py\<close>; \<open>EmptySegmentError\<close> and \<open>InvalidBoundingBoxError\<close> are the names of the
  specification's taxonomy.
\<close>

datatype error = AttributeError | ValueError | EmptySegmentError | InvalidBoundingBoxError

section \<open>Key-frame selection\<close>

text \<open>
  \<^verbatim>\<open>random.randint(a, b)\<close> of the standard library: \<^verbatim>\<open>ValueError\<close> on an empty range,
  otherwise a number of \<open>a..b\<close>. The argument \<open>r\<close> is the raw draw of the generator; every
  number of the range is the result for some draw.
\<close>

definition randint :: "nat \<Rightarrow> int \<Rightarrow> int \<Rightarrow> error + int" where
  "randint r a b = (if b < a then Inl ValueError else Inr (a + int r mod (b - a + 1)))"

definition get_key_frame_index :: "nat \<Rightarrow> 'a segment \<Rightarrow> error + 'a segment" where
  "get_key_frame_index r segment =
     (case frames segment of
        None \<Rightarrow> Inl AttributeError
      | Some fs \<Rightarrow>
          (case randint r 0 (int (length fs) - 1) of
             Inl e \<Rightarrow> Inl e
           | Inr k \<Rightarrow> Inr (segment\<lparr>keyframe_index := Some k\<rparr>)))"

section \<open>The quadrant crop\<close>

text \<open>
  The first \<^verbatim>\<open>if\<close> of \<^verbatim>\<open>crop_keyframe\<close>: the centre's first coordinate against
  \<^verbatim>\<open>keyframe.shape[0] // 2\<close>, slicing the first axis.
\<close>

definition horizontal_pass :: "'a ndarray \<Rightarrow> bbox \<Rightarrow> 'a ndarray" where
  "horizontal_pass kf bb =
     (if fst (center bb) > of_nat (shape0 kf div 2)
      then slice_to0 kf (py_int (bbox_x bb + width bb))
      else slice_from0 kf (py_int (bbox_x bb)))"

text \<open>
  The second \<^verbatim>\<open>if\<close>: the centre's second coordinate against \<^verbatim>\<open>keyframe.shape[1] // 2\<close> of
  the array it is given, slicing the second axis.
\<close>

definition vertical_pass :: "'a ndarray \<Rightarrow> bbox \<Rightarrow> 'a ndarray" where
  "vertical_pass kf bb =
     (if snd (center bb) > of_nat (shape1 kf div 2)
      then slice_to1 kf (py_int (bbox_y bb + height bb))
      else slice_from1 kf (py_int (bbox_y bb)))"

text \<open>
  \<^verbatim>\<open>crop_keyframe\<close> reads \<^verbatim>\<open>segment.speakers_bbox.center\<close> first, then the keyframe, and
  assigns \<^verbatim>\<open>segment.keyframe\<close> twice; the second \<^verbatim>\<open>if\<close> reads the keyframe that the first
  one assigned.
\<close>

definition crop_keyframe :: "'a segment \<Rightarrow> error + 'a segment" where
  "crop_keyframe segment =
     (case speakers_bbox segment of
        None \<Rightarrow> Inl AttributeError
      | Some bb \<Rightarrow>
          (case keyframe segment of
             None \<Rightarrow> Inl AttributeError
           | Some kf \<Rightarrow>
               Inr (segment\<lparr>keyframe := Some (vertical_pass (horizontal_pass kf bb) bb)\<rparr>)))"

text \<open>
  A bounding box as the claims call it valid: positive width and height, and the box
  inside the raster on both axes.
\<close>

definition valid_bbox :: "'a ndarray \<Rightarrow> bbox \<Rightarrow> bool" where
  "valid_bbox kf bb \<longleftrightarrow>
     0 < width bb \<and> 0 < height bb \<and> 0 \<le> bbox_x bb \<and> 0 \<le> bbox_y bb \<and>
     bbox_x bb + width bb \<le> of_nat (shape0 kf) \<and>
     bbox_y bb + height bb \<le> of_nat (shape1 kf)"

section \<open>Concrete inputs\<close>

text \<open>
  Inputs on which the theorems below are evaluated. The element at \<open>[i, j, c]\<close> of
  \<open>frame55\<close> is \<open>100 * i + 10 * j + c\<close>, so that a shifted view differs from the frame.
\<close>

definition frame55 :: "nat ndarray" where
  "frame55 = \<lparr>shape0 = 5, shape1 = 5, shape2 = 3, elem = (\<lambda>i j c. 100 * i + 10 * j + c)\<rparr>"

definition frame11 :: "nat ndarray" where
  "frame11 = \<lparr>shape0 = 1, shape1 = 1, shape2 = 3, elem = (\<lambda>i j c. c)\<rparr>"

definition centred_box :: bbox where
  "centred_box = \<lparr>bbox_x = 1, bbox_y = 1, width = 2, height = 2, center = (2, 2)\<rparr>"

definition lower_box :: bbox where
  "lower_box = \<lparr>bbox_x = 2, bbox_y = 2, width = 2, height = 2, center = (3, 3)\<rparr>"

definition upper_box :: bbox where
  "upper_box = \<lparr>bbox_x = 1, bbox_y = 0, width = 1, height = 2, center = (3 / 2, 1)\<rparr>"

definition full_box :: bbox where
  "full_box = \<lparr>bbox_x = 0, bbox_y = 0, width = 5, height = 5, center = (5 / 2, 5 / 2)\<rparr>"

definition half_box :: bbox where
  "half_box = \<lparr>bbox_x = 0, bbox_y = 0, width = 1 / 2, height = 1 / 2, center = (1 / 4, 1 / 4)\<rparr>"

definition bad_box :: bbox where
  "bad_box = \<lparr>bbox_x = 9, bbox_y = - 3, width = - 1, height = 0, center = (17 / 2, - 3)\<rparr>"

text \<open>A segment as the stages before the crop leave it, and one that only has its frames.\<close>

definition ready_segment :: "'a ndarray \<Rightarrow> bbox \<Rightarrow> 'a segment" where
  "ready_segment kf bb =
     \<lparr>start = 0, end' = 2, frames = Some [kf], keyframe_index = Some 0, keyframe = Some kf,
      speaker_location = Some (center bb), speakers_bbox = Some bb, image = None\<rparr>"

definition frames_segment :: "'a ndarray list \<Rightarrow> 'a segment" where
  "frames_segment fs =
     \<lparr>start = 0, end' = 2, frames = Some fs, keyframe_index = None, keyframe = None,
      speaker_location = None, speakers_bbox = None, image = None\<rparr>"

text \<open>
  Two operations over a state that is the log of the calls made so far, each entry the
  segment and the number of the operation: \<open>note_call j\<close> logs its call and returns,
  \<open>fail_on bad j\<close> logs its call and raises on the segment \<open>bad\<close>.
\<close>

definition note_call :: "nat \<Rightarrow> (nat, (nat \<times> nat) list, error) operation" where
  "note_call j segment w = (Inr (), w @ [(segment, j)])"

definition fail_on :: "nat \<Rightarrow> nat \<Rightarrow> (nat, (nat \<times> nat) list, error) operation" where
  "fail_on bad j segment w =
     (if segment = bad then (Inl ValueError, w @ [(segment, j)])
      else (Inr (), w @ [(segment, j)]))"

lemmas crop_defs = crop_keyframe_def horizontal_pass_def vertical_pass_def
  slice_to0_def slice_from0_def slice_to1_def slice_from1_def slice_bound_def

section \<open>Properties of the pipeline\<close>

lemma run_calls_append:
  "run_calls (cs @ ds) w =
     (case run_calls cs w of
        (Inl e, w') \<Rightarrow> (Inl e, w')
      | (Inr u, w') \<Rightarrow> run_calls ds w')"
  by (induction cs arbitrary: w) (auto split: prod.splits sum.splits)

lemma run_functions_calls:
  "run_functions functions segment w = run_calls (map (\<lambda>f. (f, segment)) functions) w"
  by (induction "functions" arbitrary: w) (auto split: prod.splits sum.splits)

lemma run_segments_calls:
  "run_segments functions segments w = run_calls (segment_major functions segments) w"
proof (induction segments arbitrary: w)
  case Nil
  show ?case by (simp add: segment_major_def)
next
  case (Cons s ss)
  have "segment_major functions (s # ss) =
          map (\<lambda>f. (f, s)) functions @ segment_major functions ss"
    by (simp add: segment_major_def)
  then show ?case
    using Cons.IH
    by (simp add: run_calls_append run_functions_calls split: prod.splits sum.splits)
qed

text \<open>
  Where each call stands in the schedule: call number \<open>i * n + j\<close> of the \<open>m * n\<close> calls
  is operation \<open>j\<close> on segment \<open>i\<close>.
\<close>

lemma length_segment_major:
  "length (segment_major functions segments) = length segments * length functions"
  by (induction segments) (simp_all add: segment_major_def)

lemma segment_major_nth:
  "i < length segments \<Longrightarrow> j < length functions \<Longrightarrow>
   segment_major functions segments ! (i * length functions + j) = (functions ! j, segments ! i)"
proof (induction segments arbitrary: i)
  case Nil
  then show ?case by simp
next
  case (Cons s ss)
  have unfold: "segment_major functions (s # ss) =
          map (\<lambda>f. (f, s)) functions @ segment_major functions ss"
    by (simp add: segment_major_def)
  show ?case
  proof (cases i)
    case 0
    with Cons.prems show ?thesis by (simp add: unfold nth_append)
  next
    case (Suc i')
    with Cons.prems have "i' < length ss" by simp
    from Cons.IH [OF this Cons.prems(2)] Suc show ?thesis
      by (simp add: unfold nth_append)
  qed
qed

lemma run_functions_append:
  "run_functions (fs @ gs) segment w =
     (case run_functions fs segment w of
        (Inl e, w') \<Rightarrow> (Inl e, w')
      | (Inr u, w') \<Rightarrow> run_functions gs segment w')"
  by (induction fs arbitrary: w) (auto split: prod.splits sum.splits)

lemma run_segments_append:
  "run_segments fs (ss @ ts) w =
     (case run_segments fs ss w of
        (Inl e, w') \<Rightarrow> (Inl e, w')
      | (Inr u, w') \<Rightarrow> run_segments fs ts w')"
  by (induction ss arbitrary: w) (auto split: prod.splits sum.splits)

text \<open>
  Claim C1. The pipeline built by \<open>pipe\<close> makes exactly the calls of the segment-major
  schedule, in that order, and returns the list of segments it was given. The schedule
  has one call for each segment and each operation, and call number \<open>i * n + j\<close> of it
  is operation \<open>j\<close> on segment \<open>i\<close>, where \<open>n\<close> is the number of operations: for each
  segment in sequence order every operation in declared order, each once, all of them on
  one segment before the next segment is touched. A call that raises ends the run at
  that call, as \<open>run_calls\<close> does.
\<close>

theorem pipe_segment_major:
  "pipe functions segments w =
     (case run_calls (segment_major functions segments) w of
        (Inl e, w') \<Rightarrow> (Inl e, w')
      | (Inr u, w') \<Rightarrow> (Inr segments, w')) \<and>
   length (segment_major functions segments) = length segments * length functions \<and>
   (\<forall>i j. i < length segments \<and> j < length functions \<longrightarrow>
      segment_major functions segments ! (i * length functions + j) =
        (functions ! j, segments ! i))"
  by (simp add: pipe_def pipeline_def run_segments_calls length_segment_major
        segment_major_nth)

text \<open>Three logging operations on two segments: the log is segment-major.\<close>

theorem pipe_segment_major_witness:
  "pipe [note_call 0, note_call 1, note_call 2] [10, 20] [] =
     (Inr [10, 20], [(10, 0), (10, 1), (10, 2), (20, 0), (20, 1), (20, 2)]) \<and>
   length (segment_major [note_call 0, note_call 1, note_call 2] [10, 20 :: nat]) = 6 \<and>
   (1 :: nat) < length [10, 20 :: nat] \<and>
   (2 :: nat) < length [note_call 0, note_call 1, note_call 2] \<and>
   segment_major [note_call 0, note_call 1, note_call 2] [10, 20] ! (1 * 3 + 2) =
     (note_call 2, 20)"
  using pipe_segment_major [of "[note_call 0, note_call 1, note_call 2]" "[10, 20]" "[]"]
  by (simp add: segment_major_def note_call_def)

text \<open>
  Claim C7. When the operations on the earlier segments have all returned, the operations
  before \<open>f\<close> have returned on \<open>segment\<close>, and \<open>f\<close> raises \<open>e\<close> on \<open>segment\<close>, the pipeline
  raises \<open>e\<close> and leaves the state exactly as \<open>f\<close> left it: whatever the remaining
  operations \<open>rest\<close> and the later segments \<open>later\<close> are, none of them runs, and no list of
  segments is returned.
\<close>

theorem pipe_aborts_on_failure:
  assumes "run_segments (before @ f # rest) earlier w = (Inr (), w1)"
    and "run_functions before segment w1 = (Inr (), w2)"
    and "f segment w2 = (Inl e, w3)"
  shows "pipe (before @ f # rest) (earlier @ segment # later) w = (Inl e, w3)"
  using assms
  by (simp add: pipe_def pipeline_def run_segments_append run_functions_append)

theorem pipe_aborts_on_failure_witness:
  "run_segments ([note_call 0] @ fail_on 20 1 # [note_call 2]) [10] [] =
     (Inr (), [(10, 0), (10, 1), (10, 2)]) \<and>
   run_functions [note_call 0] 20 [(10, 0), (10, 1), (10, 2)] =
     (Inr (), [(10, 0), (10, 1), (10, 2), (20, 0)]) \<and>
   fail_on 20 1 20 [(10, 0), (10, 1), (10, 2), (20, 0)] =
     (Inl ValueError, [(10, 0), (10, 1), (10, 2), (20, 0), (20, 1)]) \<and>
   pipe [note_call 0, fail_on 20 1, note_call 2] [10, 20, 30] [] =
     (Inl ValueError, [(10, 0), (10, 1), (10, 2), (20, 0), (20, 1)])"
  using pipe_aborts_on_failure [of "[note_call 0]" "fail_on 20 1" "[note_call 2]" "[10]" "[]"
      "[(10, 0), (10, 1), (10, 2)]" 20 "[(10, 0), (10, 1), (10, 2), (20, 0)]" ValueError
      "[(10, 0), (10, 1), (10, 2), (20, 0), (20, 1)]" "[30]"]
  by (simp add: note_call_def fail_on_def)

section \<open>Properties of key-frame selection\<close>

text \<open>
  Claim C5, as stated, fails on the code: with zero frames \<^verbatim>\<open>randint(0, -1)\<close> raises
  \<^verbatim>\<open>ValueError\<close>; nothing in \<^verbatim>\<open>main.py\<close> raises an \<open>EmptySegmentError\<close>.
\<close>

theorem empty_segment_counterexample:
  "frames (frames_segment ([] :: nat ndarray list)) = Some [] \<and>
   get_key_frame_index 7 (frames_segment ([] :: nat ndarray list)) = Inl ValueError \<and>
   get_key_frame_index 7 (frames_segment ([] :: nat ndarray list)) \<noteq> Inl EmptySegmentError"
  by (simp add: frames_segment_def get_key_frame_index_def randint_def)

text \<open>
  Claim C5, amended. For every segment with zero attached frames, key-frame selection
  fails with \<open>ValueError\<close>; for every segment with at least one frame it succeeds,
  whatever the generator draws, and assigns a \<open>keyframe_index\<close> that is at least 0 and
  less than the number of frames.
\<close>

theorem get_key_frame_index_result:
  "frames s = Some fs \<Longrightarrow>
   (fs = [] \<longrightarrow> get_key_frame_index r s = Inl ValueError) \<and>
   (fs \<noteq> [] \<longrightarrow>
      (\<exists>k. 0 \<le> k \<and> k < int (length fs) \<and>
           get_key_frame_index r s = Inr (s\<lparr>keyframe_index := Some k\<rparr>)))"
proof (cases fs)
  case Nil
  assume "frames s = Some fs"
  with Nil show ?thesis
    by (simp add: get_key_frame_index_def randint_def)
next
  case (Cons f fs')
  assume fr: "frames s = Some fs"
  let ?k = "int r mod int (length fs)"
  have "0 \<le> ?k" and "?k < int (length fs)"
    using Cons by simp_all
  moreover have "get_key_frame_index r s = Inr (s\<lparr>keyframe_index := Some ?k\<rparr>)"
    using fr Cons by (simp add: get_key_frame_index_def randint_def add.commute)
  ultimately show ?thesis
    using Cons by blast
qed

theorem get_key_frame_index_result_witness:
  "frames (frames_segment ([] :: nat ndarray list)) = Some [] \<and>
   get_key_frame_index 7 (frames_segment ([] :: nat ndarray list)) = Inl ValueError \<and>
   frames (frames_segment [frame55, frame55, frame55]) = Some [frame55, frame55, frame55] \<and>
   [frame55, frame55, frame55] \<noteq> [] \<and>
   (\<exists>k. 0 \<le> k \<and> k < 3 \<and>
        get_key_frame_index 7 (frames_segment [frame55, frame55, frame55]) =
          Inr ((frames_segment [frame55, frame55, frame55])\<lparr>keyframe_index := Some k\<rparr>))"
  using get_key_frame_index_result [of "frames_segment ([] :: nat ndarray list)" "[]" 7]
    get_key_frame_index_result [of "frames_segment [frame55, frame55, frame55]"
      "[frame55, frame55, frame55]" 7]
  by (simp add: frames_segment_def)

section \<open>Properties of the quadrant crop\<close>

subsection \<open>Truncation and slice bounds\<close>

lemma py_int_of_nat [simp]: "py_int (of_nat n) = int n"
  by (simp add: py_int_def)

lemma py_int_numeral [simp]: "py_int (numeral n) = numeral n"
  by (simp add: py_int_def)

lemma py_int_neg_numeral [simp]: "py_int (- numeral n) = - numeral n"
  by (simp add: py_int_def)

lemma py_int_0 [simp]: "py_int 0 = 0"
  by (simp add: py_int_def)

lemma py_int_1 [simp]: "py_int 1 = 1"
  by (simp add: py_int_def)

lemma py_int_half: "py_int (1 / 2) = 0"
  using floor_divide_of_int_eq [of 1 2, where ?'a = rat] by (simp add: py_int_def)

lemma py_int_nonneg: "0 \<le> q \<Longrightarrow> py_int q = \<lfloor>q\<rfloor>"
  by (simp add: py_int_def)

lemma slice_bound_le: "slice_bound n k \<le> n"
  by (auto simp: slice_bound_def)

lemma slice_bound_inside: "0 \<le> k \<Longrightarrow> k \<le> int n \<Longrightarrow> slice_bound n k = nat k"
  by (simp add: slice_bound_def)

lemma slice_to_size:
  "0 \<le> q \<Longrightarrow> q \<le> of_nat n \<Longrightarrow> slice_bound n (py_int q) = nat \<lfloor>q\<rfloor>"
  by (simp add: py_int_nonneg slice_bound_inside floor_le_iff le_floor_iff)

lemma slice_from_size:
  "0 \<le> q \<Longrightarrow> q < of_nat n \<Longrightarrow> slice_bound n (py_int q) < n"
proof -
  assume "0 \<le> q" and "q < of_nat n"
  then have "0 \<le> \<lfloor>q\<rfloor>" and "\<lfloor>q\<rfloor> < int n"
    by (simp_all add: floor_less_iff)
  then have "min (nat \<lfloor>q\<rfloor>) n < n"
    by linarith
  with \<open>0 \<le> q\<close> show ?thesis
    by (simp add: py_int_nonneg slice_bound_def)
qed

subsection \<open>Shapes after each pass\<close>

lemma shape1_horizontal_pass: "shape1 (horizontal_pass kf bb) = shape1 kf"
  by (simp add: horizontal_pass_def slice_to0_def slice_from0_def)

lemma shape0_horizontal_pass_le: "shape0 (horizontal_pass kf bb) \<le> shape0 kf"
  by (simp add: horizontal_pass_def slice_to0_def slice_from0_def slice_bound_le)

lemma shape0_vertical_pass: "shape0 (vertical_pass a bb) = shape0 a"
  by (simp add: vertical_pass_def slice_to1_def slice_from1_def)

lemma shape1_vertical_pass_le: "shape1 (vertical_pass a bb) \<le> shape1 a"
  by (simp add: vertical_pass_def slice_to1_def slice_from1_def slice_bound_le)

lemma crop_keyframe_present:
  "keyframe s = Some kf \<Longrightarrow> speakers_bbox s = Some bb \<Longrightarrow>
   crop_keyframe s = Inr (s\<lparr>keyframe := Some (vertical_pass (horizontal_pass kf bb) bb)\<rparr>)"
  by (simp add: crop_keyframe_def)

lemma crop_keyframe_absent:
  "keyframe s = None \<or> speakers_bbox s = None \<Longrightarrow> crop_keyframe s = Inl AttributeError"
  by (auto simp: crop_keyframe_def split: option.splits)

subsection \<open>The horizontal pass\<close>

text \<open>
  Claim C3, as stated, fails on the code: a Python slice \<^verbatim>\<open>[:k]\<close> stops before \<open>k\<close>. With
  the box ending at index 4 of a frame of 5 rows, the pass keeps rows 0 to 3; row 4, the
  upper bound, is not among them.
\<close>

theorem horizontal_upper_bound_counterexample:
  "valid_bbox frame55 lower_box \<and>
   fst (center lower_box) > of_nat (shape0 frame55 div 2) \<and>
   py_int (bbox_x lower_box + width lower_box) = 4 \<and>
   horizontal_pass frame55 lower_box = frame55\<lparr>shape0 := 4\<rparr> \<and>
   \<not> nat (py_int (bbox_x lower_box + width lower_box))
       < shape0 (horizontal_pass frame55 lower_box)"
  by (simp add: frame55_def lower_box_def valid_bbox_def crop_defs)

text \<open>
  Claim C3, amended. For every keyframe and valid bounding box, the horizontal pass
  compares the centre's first coordinate against half the keyframe's first dimension,
  computed by floor division. If the centre is strictly past that midline, it keeps the
  indices from 0 up to \<open>int(bbox.x + bbox.width)\<close>, that upper bound excluded; otherwise
  it keeps the indices from \<open>int(bbox.x)\<close> to the far edge.
\<close>

theorem horizontal_pass_keeps:
  "valid_bbox kf bb \<Longrightarrow>
   (fst (center bb) > of_nat (shape0 kf div 2) \<longrightarrow>
      horizontal_pass kf bb = kf\<lparr>shape0 := nat (py_int (bbox_x bb + width bb))\<rparr>) \<and>
   (\<not> fst (center bb) > of_nat (shape0 kf div 2) \<longrightarrow>
      horizontal_pass kf bb =
        kf\<lparr>shape0 := shape0 kf - nat (py_int (bbox_x bb)),
           elem := \<lambda>i. elem kf (nat (py_int (bbox_x bb)) + i)\<rparr>)"
proof -
  assume v: "valid_bbox kf bb"
  then have "0 \<le> bbox_x bb + width bb" and "bbox_x bb + width bb \<le> of_nat (shape0 kf)"
    and "0 \<le> bbox_x bb" and "bbox_x bb \<le> of_nat (shape0 kf)"
    by (simp_all add: valid_bbox_def)
  then have hi: "0 \<le> py_int (bbox_x bb + width bb)"
      "py_int (bbox_x bb + width bb) \<le> int (shape0 kf)"
    and lo: "0 \<le> py_int (bbox_x bb)" "py_int (bbox_x bb) \<le> int (shape0 kf)"
    by (simp_all add: py_int_nonneg floor_le_iff le_floor_iff)
  show ?thesis
    by (simp add: horizontal_pass_def slice_to0_def slice_from0_def
          slice_bound_inside [OF hi] slice_bound_inside [OF lo])
qed

theorem horizontal_pass_keeps_witness:
  "valid_bbox frame55 lower_box \<and> valid_bbox frame55 upper_box \<and>
   fst (center lower_box) > of_nat (shape0 frame55 div 2) \<and>
   \<not> fst (center upper_box) > of_nat (shape0 frame55 div 2) \<and>
   horizontal_pass frame55 lower_box = frame55\<lparr>shape0 := 4\<rparr> \<and>
   horizontal_pass frame55 upper_box =
     frame55\<lparr>shape0 := 4, elem := \<lambda>i. elem frame55 (1 + i)\<rparr>"
  using horizontal_pass_keeps [of frame55 lower_box] horizontal_pass_keeps [of frame55 upper_box]
  by (simp add: frame55_def lower_box_def upper_box_def valid_bbox_def)

subsection \<open>The vertical pass\<close>

text \<open>
  Claim C4, as stated, fails on the code: the horizontal pass slices the first axis only,
  so the second dimension of the cropped image, and with it the midline of the vertical
  pass, never differs from that of the original frame.
\<close>

theorem vertical_midline_counterexample:
  "\<not> (\<exists>(kf :: nat ndarray) bb. shape1 (horizontal_pass kf bb) div 2 \<noteq> shape1 kf div 2)"
  by (simp add: shape1_horizontal_pass)

text \<open>
  Claim C4, amended. For every keyframe and bounding box, the vertical pass is applied
  to the result of the horizontal pass, and the midline it compares against is half the
  second dimension of that already-cropped image, which is always equal to half the
  second dimension of the original frame.
\<close>

theorem vertical_pass_after_horizontal:
  "keyframe s = Some kf \<Longrightarrow> speakers_bbox s = Some bb \<Longrightarrow>
   crop_keyframe s =
     Inr (s\<lparr>keyframe := Some
       (let cropped = horizontal_pass kf bb in
        if snd (center bb) > of_nat (shape1 cropped div 2)
        then slice_to1 cropped (py_int (bbox_y bb + height bb))
        else slice_from1 cropped (py_int (bbox_y bb)))\<rparr>) \<and>
   shape1 (horizontal_pass kf bb) div 2 = shape1 kf div 2"
  by (simp add: crop_keyframe_def vertical_pass_def Let_def shape1_horizontal_pass)

theorem vertical_pass_after_horizontal_witness:
  "keyframe (ready_segment frame55 lower_box) = Some frame55 \<and>
   speakers_bbox (ready_segment frame55 lower_box) = Some lower_box \<and>
   crop_keyframe (ready_segment frame55 lower_box) =
     Inr ((ready_segment frame55 lower_box)
            \<lparr>keyframe := Some (slice_to1 (slice_to0 frame55 4) 4)\<rparr>) \<and>
   shape1 (horizontal_pass frame55 lower_box) div 2 = shape1 frame55 div 2"
  using vertical_pass_after_horizontal [of "ready_segment frame55 lower_box" frame55 lower_box]
  by (simp add: frame55_def lower_box_def ready_segment_def crop_defs)

subsection \<open>A centre on the midline\<close>

text \<open>
  Claim C2, as stated, fails on the code: with the centre on both midlines of a frame of
  5 by 5, the strict \<^verbatim>\<open>>\<close> is false on both axes and each pass takes its \<^verbatim>\<open>else\<close>
  branch. The crop keeps the indices from 1 to the far edge on both axes, not the indices
  from 0 up to the end of the box.
\<close>

theorem crop_tie_counterexample:
  "fst (center centred_box) = of_nat (shape0 frame55 div 2) \<and>
   snd (center centred_box) = of_nat (shape1 frame55 div 2) \<and>
   crop_keyframe (ready_segment frame55 centred_box) =
     Inr ((ready_segment frame55 centred_box)
            \<lparr>keyframe := Some (slice_from1 (slice_from0 frame55 1) 1)\<rparr>) \<and>
   crop_keyframe (ready_segment frame55 centred_box) \<noteq>
     Inr ((ready_segment frame55 centred_box)
            \<lparr>keyframe := Some (slice_to1 (slice_to0 frame55
                 (py_int (bbox_x centred_box + width centred_box)))
                 (py_int (bbox_y centred_box + height centred_box)))\<rparr>)"
  by (simp add: frame55_def centred_box_def ready_segment_def crop_defs)

text \<open>
  Claim C2, amended. For every keyframe and bounding box whose centre lies exactly on
  the midline of an axis (the floor of half the dimension), the quadrant crop takes the
  other branch on that axis, as a consequence of the strict comparison: on the horizontal
  pass it keeps from \<open>int(bbox.x)\<close> to the far edge, on the vertical pass from
  \<open>int(bbox.y)\<close> to the far edge.
\<close>

theorem crop_tie_keeps_far_side:
  "keyframe s = Some kf \<Longrightarrow> speakers_bbox s = Some bb \<Longrightarrow>
   crop_keyframe s = Inr (s\<lparr>keyframe := Some (vertical_pass (horizontal_pass kf bb) bb)\<rparr>) \<and>
   (fst (center bb) = of_nat (shape0 kf div 2) \<longrightarrow>
      horizontal_pass kf bb = slice_from0 kf (py_int (bbox_x bb))) \<and>
   (snd (center bb) = of_nat (shape1 kf div 2) \<longrightarrow>
      vertical_pass (horizontal_pass kf bb) bb =
        slice_from1 (horizontal_pass kf bb) (py_int (bbox_y bb)))"
  by (simp add: crop_keyframe_present horizontal_pass_def vertical_pass_def
        slice_to0_def slice_from0_def)

theorem crop_tie_keeps_far_side_witness:
  "keyframe (ready_segment frame55 centred_box) = Some frame55 \<and>
   speakers_bbox (ready_segment frame55 centred_box) = Some centred_box \<and>
   fst (center centred_box) = of_nat (shape0 frame55 div 2) \<and>
   snd (center centred_box) = of_nat (shape1 frame55 div 2) \<and>
   horizontal_pass frame55 centred_box = slice_from0 frame55 1 \<and>
   vertical_pass (horizontal_pass frame55 centred_box) centred_box =
     slice_from1 (slice_from0 frame55 1) 1"
  using crop_tie_keeps_far_side [of "ready_segment frame55 centred_box" frame55 centred_box]
  by (simp add: frame55_def centred_box_def ready_segment_def crop_defs)

subsection \<open>Bounding boxes that are not valid\<close>

text \<open>
  Claim C6, as stated, fails on the code: \<^verbatim>\<open>crop_keyframe\<close> checks nothing. A box with
  negative width, zero height, \<open>x\<close> beyond the raster and negative \<open>y\<close> is sliced by
  Python's rules (\<^verbatim>\<open>[:8]\<close> on five rows, \<^verbatim>\<open>[-3:]\<close> on five columns) and the call returns.
\<close>

theorem invalid_bbox_counterexample:
  "\<not> 0 < width bad_box \<and> \<not> 0 < height bad_box \<and>
   \<not> bbox_x bad_box \<le> of_nat (shape0 frame55) \<and> \<not> 0 \<le> bbox_y bad_box \<and>
   crop_keyframe (ready_segment frame55 bad_box) =
     Inr ((ready_segment frame55 bad_box)
            \<lparr>keyframe := Some (slice_from1 (slice_to0 frame55 8) (- 3))\<rparr>) \<and>
   crop_keyframe (ready_segment frame55 bad_box) \<noteq> Inl InvalidBoundingBoxError"
  by (simp add: frame55_def bad_box_def ready_segment_def crop_defs)

text \<open>
  Claim C6, amended. For every segment with a keyframe and a bounding box whose
  coordinates and far corner (\<open>bbox.x + bbox.width\<close>, \<open>bbox.y + bbox.height\<close>) are finite
  numbers, also when the width or height is not positive or the coordinates lie outside
  the raster, the quadrant crop does not fail with \<open>InvalidBoundingBoxError\<close>. It returns
  the segment with its keyframe sliced exactly as Python slices: on the first axis
  \<^verbatim>\<open>[:int(x + width)]\<close> when the centre is past the midline and \<^verbatim>\<open>[int(x):]\<close> otherwise,
  on the second axis \<^verbatim>\<open>[:, :int(y + height)]\<close> or \<^verbatim>\<open>[:, int(y):]\<close>, each bound placed by
  \<open>slice_bound\<close> (a negative bound counts from the end, and the bound is clamped to the
  axis), so that the result may be empty.
\<close>

theorem crop_keyframe_slices_any_box:
  assumes "keyframe s = Some kf" and "speakers_bbox s = Some bb"
  shows "crop_keyframe s =
     Inr (s\<lparr>keyframe := Some
       (let past0 = fst (center bb) > of_nat (shape0 kf div 2);
            past1 = snd (center bb) > of_nat (shape1 kf div 2);
            b0 = slice_bound (shape0 kf)
                   (py_int (if past0 then bbox_x bb + width bb else bbox_x bb));
            b1 = slice_bound (shape1 kf)
                   (py_int (if past1 then bbox_y bb + height bb else bbox_y bb))
        in kf\<lparr>shape0 := (if past0 then b0 else shape0 kf - b0),
              shape1 := (if past1 then b1 else shape1 kf - b1),
              elem := \<lambda>i j. elem kf ((if past0 then 0 else b0) + i)
                                     ((if past1 then 0 else b1) + j)\<rparr>)\<rparr>) \<and>
   crop_keyframe s \<noteq> Inl InvalidBoundingBoxError"
proof -
  let ?past0 = "fst (center bb) > of_nat (shape0 kf div 2)"
  let ?past1 = "snd (center bb) > of_nat (shape1 kf div 2)"
  let ?b0 = "slice_bound (shape0 kf)
               (py_int (if ?past0 then bbox_x bb + width bb else bbox_x bb))"
  let ?b1 = "slice_bound (shape1 kf)
               (py_int (if ?past1 then bbox_y bb + height bb else bbox_y bb))"
  have h: "horizontal_pass kf bb =
      kf\<lparr>shape0 := (if ?past0 then ?b0 else shape0 kf - ?b0),
         elem := \<lambda>i. elem kf ((if ?past0 then 0 else ?b0) + i)\<rparr>"
    by (simp add: horizontal_pass_def slice_to0_def slice_from0_def)
  have v: "vertical_pass a bb =
      a\<lparr>shape1 := (if snd (center bb) > of_nat (shape1 a div 2)
                    then slice_bound (shape1 a) (py_int (bbox_y bb + height bb))
                    else shape1 a - slice_bound (shape1 a) (py_int (bbox_y bb))),
        elem := \<lambda>i j. elem a i
                  ((if snd (center bb) > of_nat (shape1 a div 2) then 0
                    else slice_bound (shape1 a) (py_int (bbox_y bb))) + j)\<rparr>"
    for a :: "'a ndarray"
    by (simp add: vertical_pass_def slice_to1_def slice_from1_def)
  have "vertical_pass (horizontal_pass kf bb) bb =
      kf\<lparr>shape0 := (if ?past0 then ?b0 else shape0 kf - ?b0),
         shape1 := (if ?past1 then ?b1 else shape1 kf - ?b1),
         elem := \<lambda>i j. elem kf ((if ?past0 then 0 else ?b0) + i)
                                ((if ?past1 then 0 else ?b1) + j)\<rparr>"
    by (simp add: v [of "horizontal_pass kf bb"] shape1_horizontal_pass) (simp add: h)
  then show ?thesis
    using assms by (simp add: crop_keyframe_present Let_def)
qed

theorem crop_keyframe_slices_any_box_witness:
  "keyframe (ready_segment frame55 bad_box) = Some frame55 \<and>
   speakers_bbox (ready_segment frame55 bad_box) = Some bad_box \<and>
   \<not> 0 < width bad_box \<and> \<not> 0 < height bad_box \<and>
   \<not> bbox_x bad_box \<le> of_nat (shape0 frame55) \<and> \<not> 0 \<le> bbox_y bad_box \<and>
   crop_keyframe (ready_segment frame55 bad_box) =
     Inr ((ready_segment frame55 bad_box)
            \<lparr>keyframe := Some (frame55\<lparr>shape0 := 5, shape1 := 3,
                 elem := \<lambda>i j. elem frame55 i (2 + j)\<rparr>)\<rparr>) \<and>
   crop_keyframe (ready_segment frame55 bad_box) \<noteq> Inl InvalidBoundingBoxError"
  using crop_keyframe_slices_any_box [of "ready_segment frame55 bad_box" frame55 bad_box]
  by (simp add: ready_segment_def frame55_def bad_box_def slice_bound_def Let_def)

subsection \<open>The dimensions of the output\<close>

text \<open>
  Claim C8, as stated, fails on the code: a box of positive width and height inside a
  raster of one row and one column, ending at 1/2 on both axes, has its centre past both
  midlines (\<^verbatim>\<open>1 // 2\<close> is 0), and \<^verbatim>\<open>int(0.5)\<close> is 0: both slices are \<^verbatim>\<open>[:0]\<close> and the
  output has no row and no column.
\<close>

theorem crop_dimensions_counterexample:
  "valid_bbox frame11 half_box \<and>
   crop_keyframe (ready_segment frame11 half_box) =
     Inr ((ready_segment frame11 half_box)
            \<lparr>keyframe := Some (frame11\<lparr>shape0 := 0, shape1 := 0\<rparr>)\<rparr>) \<and>
   \<not> 1 \<le> shape0 (frame11\<lparr>shape0 := 0, shape1 := 0\<rparr>)"
  by (simp add: frame11_def half_box_def ready_segment_def valid_bbox_def crop_defs py_int_half)

text \<open>
  Claim C8, amended. For every keyframe and valid bounding box whose far corner is at
  least 1 on both axes (\<open>bbox.x + bbox.width\<close> and \<open>bbox.y + bbox.height\<close>, which holds
  for every valid box with whole-number coordinates), each dimension of the quadrant-crop
  output is less than or equal to the corresponding input dimension and is at least 1.
\<close>

theorem crop_dimensions:
  assumes "keyframe s = Some kf" and "speakers_bbox s = Some bb"
    and "valid_bbox kf bb"
    and "1 \<le> bbox_x bb + width bb" and "1 \<le> bbox_y bb + height bb"
  shows "\<exists>out. crop_keyframe s = Inr (s\<lparr>keyframe := Some out\<rparr>) \<and>
           1 \<le> shape0 out \<and> shape0 out \<le> shape0 kf \<and>
           1 \<le> shape1 out \<and> shape1 out \<le> shape1 kf"
proof -
  let ?h = "horizontal_pass kf bb"
  let ?out = "vertical_pass ?h bb"
  from assms(3) have x: "0 \<le> bbox_x bb" "bbox_x bb < of_nat (shape0 kf)"
    and xw: "0 \<le> bbox_x bb + width bb" "bbox_x bb + width bb \<le> of_nat (shape0 kf)"
    and y: "0 \<le> bbox_y bb" "bbox_y bb < of_nat (shape1 kf)"
    and yh: "0 \<le> bbox_y bb + height bb" "bbox_y bb + height bb \<le> of_nat (shape1 kf)"
    by (simp_all add: valid_bbox_def)
  have "1 \<le> nat \<lfloor>bbox_x bb + width bb\<rfloor>"
    using assms(4) by (simp add: le_floor_iff le_nat_iff)
  with slice_to_size [OF xw] slice_from_size [OF x] have h0: "1 \<le> shape0 ?h"
    by (auto simp: horizontal_pass_def slice_to0_def slice_from0_def)
  have "1 \<le> nat \<lfloor>bbox_y bb + height bb\<rfloor>"
    using assms(5) by (simp add: le_floor_iff le_nat_iff)
  with slice_to_size [OF yh] slice_from_size [OF y] have v1: "1 \<le> shape1 ?out"
    by (auto simp: vertical_pass_def slice_to1_def slice_from1_def shape1_horizontal_pass)
  have "shape0 ?out = shape0 ?h"
    by (rule shape0_vertical_pass)
  moreover have "shape1 ?out \<le> shape1 kf"
    using shape1_vertical_pass_le [of ?h bb] by (simp add: shape1_horizontal_pass)
  moreover note h0 v1 shape0_horizontal_pass_le [of kf bb]
  ultimately show ?thesis
    using assms(1,2) by (auto simp: crop_keyframe_present)
qed

theorem crop_dimensions_witness:
  "keyframe (ready_segment frame55 lower_box) = Some frame55 \<and>
   speakers_bbox (ready_segment frame55 lower_box) = Some lower_box \<and>
   valid_bbox frame55 lower_box \<and>
   1 \<le> bbox_x lower_box + width lower_box \<and> 1 \<le> bbox_y lower_box + height lower_box \<and>
   (\<exists>out. crop_keyframe (ready_segment frame55 lower_box) =
            Inr ((ready_segment frame55 lower_box)\<lparr>keyframe := Some out\<rparr>) \<and>
          1 \<le> shape0 out \<and> shape0 out \<le> shape0 frame55 \<and>
          1 \<le> shape1 out \<and> shape1 out \<le> shape1 frame55)"
  using crop_dimensions [of "ready_segment frame55 lower_box" frame55 lower_box]
  by (simp add: ready_segment_def valid_bbox_def frame55_def lower_box_def)

subsection \<open>The box that spans the frame\<close>

text \<open>
  Claim C9. For every keyframe, cropping with a bounding box that spans the full frame
  (\<open>x = 0\<close>, \<open>y = 0\<close>, the width equal to the first dimension, which the specification
  calls the frame's width, and the height equal to the second dimension) returns the
  original image unchanged, whichever branch the centre selects; the segment as a whole
  is left as it was.
\<close>

theorem crop_full_frame_unchanged:
  assumes "keyframe s = Some kf" and "speakers_bbox s = Some bb"
    and "bbox_x bb = 0" and "bbox_y bb = 0"
    and "width bb = of_nat (shape0 kf)" and "height bb = of_nat (shape1 kf)"
  shows "crop_keyframe s = Inr s"
proof -
  have "horizontal_pass kf bb = kf"
    using assms(3,5)
    by (simp add: horizontal_pass_def slice_to0_def slice_from0_def slice_bound_def)
  moreover have "vertical_pass kf bb = kf"
    using assms(4,6)
    by (simp add: vertical_pass_def slice_to1_def slice_from1_def slice_bound_def)
  ultimately show ?thesis
    using assms(1,2) by (simp add: crop_keyframe_present)
qed

theorem crop_full_frame_unchanged_witness:
  "keyframe (ready_segment frame55 full_box) = Some frame55 \<and>
   speakers_bbox (ready_segment frame55 full_box) = Some full_box \<and>
   bbox_x full_box = 0 \<and> bbox_y full_box = 0 \<and>
   width full_box = of_nat (shape0 frame55) \<and> height full_box = of_nat (shape1 frame55) \<and>
   crop_keyframe (ready_segment frame55 full_box) = Inr (ready_segment frame55 full_box)"
  using crop_full_frame_unchanged [of "ready_segment frame55 full_box" frame55 full_box]
  by (simp add: ready_segment_def frame55_def full_box_def)

subsection \<open>The fields the crop writes\<close>

text \<open>
  Claim C10. For every segment, the quadrant crop stage writes only the segment's
  \<open>keyframe\<close> field: whenever \<open>crop_keyframe\<close> returns, \<open>start\<close>, \<open>end\<close>, \<open>frames\<close>,
  \<open>keyframe_index\<close>, \<open>speaker_location\<close>, \<open>speakers_bbox\<close> and \<open>image\<close> are what they were.
\<close>

theorem crop_keyframe_frame:
  "crop_keyframe s = Inr s' \<Longrightarrow>
   start s' = start s \<and> end' s' = end' s \<and> frames s' = frames s \<and>
   keyframe_index s' = keyframe_index s \<and> speaker_location s' = speaker_location s \<and>
   speakers_bbox s' = speakers_bbox s \<and> image s' = image s"
  by (auto simp: crop_keyframe_def split: option.splits)

theorem crop_keyframe_frame_witness:
  "crop_keyframe (ready_segment frame55 lower_box) =
     Inr ((ready_segment frame55 lower_box)
            \<lparr>keyframe := Some (slice_to1 (slice_to0 frame55 4) 4)\<rparr>) \<and>
   frames ((ready_segment frame55 lower_box)
            \<lparr>keyframe := Some (slice_to1 (slice_to0 frame55 4) 4)\<rparr>) = Some [frame55] \<and>
   speakers_bbox ((ready_segment frame55 lower_box)
            \<lparr>keyframe := Some (slice_to1 (slice_to0 frame55 4) 4)\<rparr>) = Some lower_box"
  using crop_keyframe_frame [of "ready_segment frame55 lower_box"
      "(ready_segment frame55 lower_box)\<lparr>keyframe := Some (slice_to1 (slice_to0 frame55 4) 4)\<rparr>"]
  by (simp add: ready_segment_def frame55_def lower_box_def crop_defs)

end
